theory Spec2Isabelle
  imports Complex_Main "HOL-Library.Char_ord" "HOL-Library.List_Lexorder"
    "HOL-Library.Multiset" "HOL-Library.Sublist"
begin

section \<open>Strings\<close>

text \<open>
  Text values are lists of 8-bit characters, compared by character code as SQLite's
  BINARY collation does. The comparison inside \<open>LIKE\<close> folds the case of the ASCII
  letters only, as SQLite's built-in \<open>LIKE\<close> does.
\<close>

definition ascii_lower :: "char \<Rightarrow> char" where
  "ascii_lower c =
     (case map_of (zip ''ABCDEFGHIJKLMNOPQRSTUVWXYZ'' ''abcdefghijklmnopqrstuvwxyz'') c of
        None \<Rightarrow> c
      | Some l \<Rightarrow> l)"

definition ascii_upper :: "char \<Rightarrow> char" where
  "ascii_upper c =
     (case map_of (zip ''abcdefghijklmnopqrstuvwxyz'' ''ABCDEFGHIJKLMNOPQRSTUVWXYZ'') c of
        None \<Rightarrow> c
      | Some u \<Rightarrow> u)"

text \<open>
  The SQL operator \<open>text LIKE pattern\<close> (no ESCAPE clause): \<open>%\<close> stands for any run
  of characters, \<open>_\<close> for exactly one, every other character for itself up to the case
  of ASCII letters. The pattern is the first argument.
\<close>

fun like_match :: "string \<Rightarrow> string \<Rightarrow> bool" where
  "like_match [] s = (s = [])"
| "like_match (p # ps) s =
     (if p = CHR ''%'' then
        (like_match ps s \<or> (case s of [] \<Rightarrow> False | c # cs \<Rightarrow> like_match (p # ps) cs))
      else
        (case s of
           [] \<Rightarrow> False
         | c # cs \<Rightarrow> (p = CHR ''_'' \<or> ascii_lower p = ascii_lower c) \<and> like_match ps cs))"

text \<open>\<open>column LIKE ?\<close> on a nullable column: NULL is not selected.\<close>

definition like_nullable :: "string \<Rightarrow> string option \<Rightarrow> bool" where
  "like_nullable pat v = (case v of None \<Rightarrow> False | Some s \<Rightarrow> like_match pat s)"

text \<open>The parameter \<open>f"%{keyword}%"\<close>.\<close>

definition contains_pattern :: "string \<Rightarrow> string" where
  "contains_pattern s = ''%'' @ s @ ''%''"

section \<open>The tables\<close>

text \<open>
  One record per table of \<open>_create_tables\<close>, with the columns in the order of the
  schema (a fetched row is the tuple of these columns). An \<open>amount REAL\<close> is a finite
  number, held as the real number it denotes; how the reports add amounts is said where
  they are defined. \<open>description TEXT\<close> is the only nullable column.
\<close>

record expense_row =
  e_id :: int
  e_date :: string
  e_category :: string
  e_amount :: real
  e_description :: "string option"

record budget_row =
  b_id :: int
  b_month_year :: string
  b_budget_amount :: real

record income_row =
  i_id :: int
  i_date :: string
  i_source :: string
  i_amount :: real
  i_description :: "string option"

record category_row =
  c_id :: int
  c_name :: string

text \<open>
  A table is the list of its rows in scan order (ascending rowid). \<open>expenses_seq\<close> is
  the \<open>sqlite_sequence\<close> entry that AUTOINCREMENT keeps for the expenses table.
\<close>

record database =
  expenses :: "expense_row list"
  budgets :: "budget_row list"
  income :: "income_row list"
  categories :: "category_row list"
  expenses_seq :: int

section \<open>The store engine\<close>

text \<open>
  What the program cannot decide is an input of the model:
  \<^item> \<open>strftime fmt text\<close> is SQLite's \<open>STRFTIME\<close>, \<open>None\<close> for SQL NULL (a text that
    SQLite does not read as a date);
  \<^item> \<open>raises k\<close> says whether the \<open>k\<close>-th call that a method makes to the engine
    (counted from 0, in program order) fails for a reason that is not in the tables
    (I/O, a lock, a full disk); the failed call changes nothing.
\<close>

record sqlite =
  strftime :: "string \<Rightarrow> string \<Rightarrow> string option"
  raises :: "nat \<Rightarrow> bool"

datatype sqlite_error = IntegrityError | OperationalError

text \<open>
  A connection shows \<open>tables\<close> to its queries. While a transaction is open, \<open>txn\<close>
  holds the tables as they were when it began, which is what ROLLBACK restores.
\<close>

record connection =
  tables :: database
  txn :: "database option"

text \<open>\<open>self.cursor\<close> is \<open>None\<close> when \<open>_connect\<close> failed.\<close>

type_synonym DatabaseManager = "connection option"

definition connection_to :: "database \<Rightarrow> DatabaseManager" where
  "connection_to db = Some \<lparr>tables = db, txn = None\<rparr>"

datatype messagebox = NoMessage | ShowWarning string | ShowError string

type_synonym statement = "database \<Rightarrow> sqlite_error + database"

text \<open>\<open>self.conn.execute("BEGIN TRANSACTION")\<close>: an error inside a transaction.\<close>

definition begin_transaction :: "bool \<Rightarrow> connection \<Rightarrow> sqlite_error option \<times> connection" where
  "begin_transaction fails c =
     (if fails \<or> txn c \<noteq> None then (Some OperationalError, c)
      else (None, c\<lparr>txn := Some (tables c)\<rparr>))"

text \<open>
  \<open>self.cursor.execute\<close> of INSERT, UPDATE or DELETE. The \<open>sqlite3\<close> module opens a
  transaction first when none is open; a statement that fails changes no row and leaves
  the transaction open.
\<close>

definition execute_dml :: "bool \<Rightarrow> statement \<Rightarrow> connection \<Rightarrow> sqlite_error option \<times> connection" where
  "execute_dml fails stmt c =
     (let c1 = (if txn c = None then c\<lparr>txn := Some (tables c)\<rparr> else c) in
      if fails then (Some OperationalError, c1)
      else (case stmt (tables c1) of
              Inl e \<Rightarrow> (Some e, c1)
            | Inr t \<Rightarrow> (None, c1\<lparr>tables := t\<rparr>)))"

definition commit :: "bool \<Rightarrow> connection \<Rightarrow> sqlite_error option \<times> connection" where
  "commit fails c = (if fails then (Some OperationalError, c) else (None, c\<lparr>txn := None\<rparr>))"

definition rollback :: "connection \<Rightarrow> connection" where
  "rollback c = (case txn c of None \<Rightarrow> c | Some t \<Rightarrow> \<lparr>tables = t, txn = None\<rparr>)"

text \<open>\<open>self.cursor.execute\<close> of a SELECT, followed by \<open>fetchall\<close> or \<open>fetchone\<close>.\<close>

definition execute_query :: "bool \<Rightarrow> (database \<Rightarrow> 'a) \<Rightarrow> connection \<Rightarrow> sqlite_error + 'a" where
  "execute_query fails q c = (if fails then Inl OperationalError else Inr (q (tables c)))"

text \<open>The body of a \<open>try\<close>: the calls in order, up to the first that raises.\<close>

fun run_try :: "(connection \<Rightarrow> sqlite_error option \<times> connection) list \<Rightarrow> connection
    \<Rightarrow> sqlite_error option \<times> connection" where
  "run_try [] c = (None, c)"
| "run_try (step # steps) c =
     (case step c of
        (None, c') \<Rightarrow> run_try steps c'
      | (Some e, c') \<Rightarrow> (Some e, c'))"

section \<open>Queries\<close>

text \<open>Python's \<open>if value:\<close> on an optional text: neither \<open>None\<close> nor empty.\<close>

fun if_given :: "string option \<Rightarrow> (string \<Rightarrow> 'a list) \<Rightarrow> 'a list" where
  "if_given None f = []"
| "if_given (Some s) f = (if s = [] then [] else f s)"

text \<open>
  \<open>ORDER BY date DESC\<close>. SQL leaves the order of rows with equal dates open; SQLite
  returns them in scan order, and so does the model: the sort is stable.
\<close>

definition order_by_desc :: "('a \<Rightarrow> string) \<Rightarrow> 'a list \<Rightarrow> 'a list" where
  "order_by_desc key rows = rev (sort_key key (rev rows))"

text \<open>
  \<open>WHERE 1=1 AND ...\<close>: the conjuncts that \<open>fetch_expenses\<close> appends to its query,
  each with its parameter bound.
\<close>

definition fetch_expenses_where :: "(string \<Rightarrow> string \<Rightarrow> string option) \<Rightarrow>
    string option \<Rightarrow> string option \<Rightarrow> string option \<Rightarrow> string option \<Rightarrow> string option \<Rightarrow>
    string option \<Rightarrow> (expense_row \<Rightarrow> bool) list" where
  "fetch_expenses_where fmt start_date end_date category year month_year keyword =
     if_given start_date (\<lambda>p. [\<lambda>r. p \<le> e_date r]) @
     if_given end_date (\<lambda>p. [\<lambda>r. e_date r \<le> p]) @
     if_given category (\<lambda>p. if p \<noteq> ''All Categories'' then [\<lambda>r. e_category r = p] else []) @
     if_given year (\<lambda>p. if p \<noteq> ''All Years'' then [\<lambda>r. fmt ''%Y'' (e_date r) = Some p] else []) @
     if_given month_year (\<lambda>p. [\<lambda>r. fmt ''%Y-%m'' (e_date r) = Some p]) @
     if_given keyword (\<lambda>p. [\<lambda>r. like_nullable (contains_pattern p) (e_description r)
                                \<or> like_match (contains_pattern p) (e_category r)])"

definition select_expenses :: "(expense_row \<Rightarrow> bool) list \<Rightarrow> database \<Rightarrow> expense_row list" where
  "select_expenses conds db =
     order_by_desc e_date (filter (\<lambda>r. list_all (\<lambda>cond. cond r) conds) (expenses db))"

definition fetch_expenses :: "sqlite \<Rightarrow> DatabaseManager \<Rightarrow> string option \<Rightarrow> string option \<Rightarrow>
    string option \<Rightarrow> string option \<Rightarrow> string option \<Rightarrow> string option \<Rightarrow>
    expense_row list \<times> messagebox" where
  "fetch_expenses sql self start_date end_date category year month_year keyword =
     (case self of
        None \<Rightarrow> ([], NoMessage)
      | Some c \<Rightarrow>
          (case execute_query (raises sql 0)
                  (select_expenses (fetch_expenses_where (strftime sql)
                      start_date end_date category year month_year keyword)) c of
             Inr rows \<Rightarrow> (rows, NoMessage)
           | Inl e \<Rightarrow> ([], ShowError ''Database Error'')))"

text \<open>\<open>fetch_income\<close>: the source is matched with \<open>LIKE\<close>, and no value switches a filter off.\<close>

definition fetch_income_where :: "(string \<Rightarrow> string \<Rightarrow> string option) \<Rightarrow>
    string option \<Rightarrow> string option \<Rightarrow> string option \<Rightarrow> string option \<Rightarrow> string option \<Rightarrow>
    string option \<Rightarrow> (income_row \<Rightarrow> bool) list" where
  "fetch_income_where fmt start_date end_date source year month_year keyword =
     if_given start_date (\<lambda>p. [\<lambda>r. p \<le> i_date r]) @
     if_given end_date (\<lambda>p. [\<lambda>r. i_date r \<le> p]) @
     if_given source (\<lambda>p. [\<lambda>r. like_match (contains_pattern p) (i_source r)]) @
     if_given year (\<lambda>p. [\<lambda>r. fmt ''%Y'' (i_date r) = Some p]) @
     if_given month_year (\<lambda>p. [\<lambda>r. fmt ''%Y-%m'' (i_date r) = Some p]) @
     if_given keyword (\<lambda>p. [\<lambda>r. like_nullable (contains_pattern p) (i_description r)
                                \<or> like_match (contains_pattern p) (i_source r)])"

definition select_income :: "(income_row \<Rightarrow> bool) list \<Rightarrow> database \<Rightarrow> income_row list" where
  "select_income conds db =
     order_by_desc i_date (filter (\<lambda>r. list_all (\<lambda>cond. cond r) conds) (income db))"

definition fetch_income :: "sqlite \<Rightarrow> DatabaseManager \<Rightarrow> string option \<Rightarrow> string option \<Rightarrow>
    string option \<Rightarrow> string option \<Rightarrow> string option \<Rightarrow> string option \<Rightarrow>
    income_row list \<times> messagebox" where
  "fetch_income sql self start_date end_date source year month_year keyword =
     (case self of
        None \<Rightarrow> ([], NoMessage)
      | Some c \<Rightarrow>
          (case execute_query (raises sql 0)
                  (select_income (fetch_income_where (strftime sql)
                      start_date end_date source year month_year keyword)) c of
             Inr rows \<Rightarrow> (rows, NoMessage)
           | Inl e \<Rightarrow> ([], ShowError ''Database Error'')))"

text \<open>
  \<open>SELECT budget_amount FROM budgets WHERE month_year = ?\<close> and \<open>fetchone\<close>: the first
  row of the result, if any.
\<close>

definition select_budget_amount :: "string \<Rightarrow> database \<Rightarrow> real option" where
  "select_budget_amount month_year db =
     map_option b_budget_amount (find (\<lambda>b. b_month_year b = month_year) (budgets db))"

definition get_monthly_budget :: "sqlite \<Rightarrow> DatabaseManager \<Rightarrow> string \<Rightarrow> real \<times> messagebox" where
  "get_monthly_budget sql self month_year =
     (case self of
        None \<Rightarrow> (0, NoMessage)
      | Some c \<Rightarrow>
          (case execute_query (raises sql 0) (select_budget_amount month_year) c of
             Inr result \<Rightarrow> ((case result of Some amount \<Rightarrow> amount | None \<Rightarrow> 0), NoMessage)
           | Inl e \<Rightarrow> (0, ShowError ''Database Error'')))"

section \<open>Statements that change the expenses\<close>

text \<open>
  \<open>INSERT INTO expenses (date, category, amount, description)\<close>: the new rowid is one
  more than the largest rowid the table has ever held.
\<close>

definition next_rowid :: "int \<Rightarrow> int list \<Rightarrow> int" where
  "next_rowid seq ids = foldr max ids seq + 1"

definition insert_expense :: "string \<Rightarrow> string \<Rightarrow> real \<Rightarrow> string option \<Rightarrow> statement" where
  "insert_expense date category amount description db =
     (let rowid = next_rowid (expenses_seq db) (map e_id (expenses db)) in
      Inr (db\<lparr>expenses := expenses db @
                 [\<lparr>e_id = rowid, e_date = date, e_category = category, e_amount = amount,
                   e_description = description\<rparr>],
              expenses_seq := rowid\<rparr>))"

definition add_expense :: "sqlite \<Rightarrow> DatabaseManager \<Rightarrow> string \<Rightarrow> string \<Rightarrow> real \<Rightarrow>
    string option \<Rightarrow> bool \<times> messagebox \<times> DatabaseManager" where
  "add_expense sql self date category amount description =
     (case self of
        None \<Rightarrow> (False, NoMessage, None)
      | Some c \<Rightarrow>
          (case run_try [execute_dml (raises sql 0) (insert_expense date category amount description),
                         commit (raises sql 1)] c of
             (None, c') \<Rightarrow> (True, NoMessage, Some c')
           | (Some e, c') \<Rightarrow> (False, ShowError ''Database Error'', Some c')))"

text \<open>\<open>UPDATE expenses SET date=?, category=?, amount=?, description=? WHERE id=?\<close>\<close>

definition update_expense_row :: "int \<Rightarrow> string \<Rightarrow> string \<Rightarrow> real \<Rightarrow> string option \<Rightarrow> statement" where
  "update_expense_row expense_id date category amount description db =
     Inr (db\<lparr>expenses :=
            map (\<lambda>r. if e_id r = expense_id
                      then r\<lparr>e_date := date, e_category := category, e_amount := amount,
                              e_description := description\<rparr>
                      else r) (expenses db)\<rparr>)"

definition update_expense :: "sqlite \<Rightarrow> DatabaseManager \<Rightarrow> int \<Rightarrow> string \<Rightarrow> string \<Rightarrow> real \<Rightarrow>
    string option \<Rightarrow> bool \<times> messagebox \<times> DatabaseManager" where
  "update_expense sql self expense_id date category amount description =
     (case self of
        None \<Rightarrow> (False, NoMessage, None)
      | Some c \<Rightarrow>
          (case run_try [execute_dml (raises sql 0)
                            (update_expense_row expense_id date category amount description),
                         commit (raises sql 1)] c of
             (None, c') \<Rightarrow> (True, NoMessage, Some c')
           | (Some e, c') \<Rightarrow> (False, ShowError ''Database Error'', Some c')))"

section \<open>Categories\<close>

text \<open>\<open>SELECT name FROM categories ORDER BY name ASC\<close>\<close>

definition select_category_names :: "database \<Rightarrow> string list" where
  "select_category_names db = sort (map c_name (categories db))"

definition get_categories :: "sqlite \<Rightarrow> DatabaseManager \<Rightarrow> string list \<times> messagebox" where
  "get_categories sql self =
     (case self of
        None \<Rightarrow> ([], NoMessage)
      | Some c \<Rightarrow>
          (case execute_query (raises sql 0) select_category_names c of
             Inr names \<Rightarrow> (names, NoMessage)
           | Inl e \<Rightarrow> ([], ShowError ''Database Error'')))"

text \<open>
  \<open>UPDATE categories SET name = ? WHERE name = ?\<close> with the parameters
  \<open>(new_name, old_name)\<close>. \<open>name\<close> is UNIQUE: the statement fails when it would give
  the row of \<open>old_name\<close> a name that another row has. An UPDATE that matches no row, or
  that writes back the same name, succeeds.
\<close>

definition update_category_name :: "string \<Rightarrow> string \<Rightarrow> statement" where
  "update_category_name new_name old_name db =
     (if old_name \<in> c_name ` set (categories db) \<and> new_name \<noteq> old_name
         \<and> new_name \<in> c_name ` set (categories db)
      then Inl IntegrityError
      else Inr (db\<lparr>categories :=
                  map (\<lambda>r. if c_name r = old_name then r\<lparr>c_name := new_name\<rparr> else r)
                    (categories db)\<rparr>))"

text \<open>\<open>UPDATE expenses SET category = ? WHERE category = ?\<close>\<close>

definition update_expenses_category :: "string \<Rightarrow> string \<Rightarrow> statement" where
  "update_expenses_category new_name old_name db =
     Inr (db\<lparr>expenses :=
            map (\<lambda>r. if e_category r = old_name then r\<lparr>e_category := new_name\<rparr> else r)
              (expenses db)\<rparr>)"

text \<open>\<open>DELETE FROM categories WHERE name = ?\<close>\<close>

definition delete_category_row :: "string \<Rightarrow> statement" where
  "delete_category_row category_name db =
     Inr (db\<lparr>categories := filter (\<lambda>r. c_name r \<noteq> category_name) (categories db)\<rparr>)"

definition update_category :: "sqlite \<Rightarrow> DatabaseManager \<Rightarrow> string \<Rightarrow> string \<Rightarrow>
    bool \<times> messagebox \<times> DatabaseManager" where
  "update_category sql self old_name new_name =
     (case self of
        None \<Rightarrow> (False, NoMessage, None)
      | Some c \<Rightarrow>
          (case run_try [begin_transaction (raises sql 0),
                         execute_dml (raises sql 1) (update_category_name new_name old_name),
                         execute_dml (raises sql 2) (update_expenses_category new_name old_name),
                         commit (raises sql 3)] c of
             (None, c') \<Rightarrow> (True, NoMessage, Some c')
           | (Some IntegrityError, c') \<Rightarrow>
               (False, ShowWarning ''Duplicate Category'', Some (rollback c'))
           | (Some OperationalError, c') \<Rightarrow>
               (False, ShowError ''Database Error'', Some (rollback c'))))"

definition delete_category :: "sqlite \<Rightarrow> DatabaseManager \<Rightarrow> string \<Rightarrow>
    bool \<times> messagebox \<times> DatabaseManager" where
  "delete_category sql self category_name =
     (case self of
        None \<Rightarrow> (False, NoMessage, None)
      | Some c \<Rightarrow>
          (case run_try [begin_transaction (raises sql 0),
                         execute_dml (raises sql 1)
                           (update_expenses_category ''Uncategorized'' category_name),
                         execute_dml (raises sql 2) (delete_category_row category_name),
                         commit (raises sql 3)] c of
             (None, c') \<Rightarrow> (True, NoMessage, Some c')
           | (Some e, c') \<Rightarrow> (False, ShowError ''Database Error'', Some (rollback c'))))"

section \<open>Years\<close>





section \<open>Reports\<close>

text \<open>
  \<open>collections.defaultdict(float)\<close>: the entries in insertion order. \<open>d[k] += v\<close>
  reads a missing key as \<open>0.0\<close>. The sums of this dictionary are exact; the totals by
  category, further down, round as floats do.
\<close>

type_synonym totals = "(string \<times> real) list"



subsection \<open>Dates in Python\<close>


definition digit_char :: "nat \<Rightarrow> char" where
  "digit_char n = ''0123456789'' ! (n mod 10)"



text \<open>\<open>str(n)\<close> for a natural number.\<close>

fun py_str :: "nat \<Rightarrow> string" where
  "py_str n = (if n < 10 then [digit_char n] else py_str (n div 10) @ [digit_char n])"

declare py_str.simps [simp del]

text \<open>\<open>f"{n:02d}"\<close> and the \<open>%m\<close> of \<open>strftime\<close>; the \<open>%Y\<close> of \<open>strftime\<close>.\<close>

definition zero_fill :: "nat \<Rightarrow> string \<Rightarrow> string" where
  "zero_fill width s = replicate (width - length s) (CHR ''0'') @ s"










subsection \<open>The monthly bar chart\<close>


definition all_months :: "string list" where
  "all_months = map (\<lambda>i. zero_fill 2 (py_str i)) [1..<13]"






text \<open>An income row read as an expense row, the source in the place of the category.\<close>

definition as_expense :: "income_row \<Rightarrow> expense_row" where
  "as_expense r = \<lparr>e_id = i_id r, e_date = i_date r, e_category = i_source r,
                    e_amount = i_amount r, e_description = i_description r\<rparr>"


subsection \<open>Python floats\<close>

text \<open>
  A Python \<open>float\<close> is an IEEE 754 binary64 number. A finite one is held as the real
  number it denotes (the sign of zero is not kept: no report reads it).
\<close>

datatype pyfloat = Finite real | PosInf | NegInf | NaN

text \<open>The position of the leading binary digit of a positive natural number.\<close>

fun floor_log2 :: "nat \<Rightarrow> nat" where
  "floor_log2 n = (if n < 2 then 0 else Suc (floor_log2 (n div 2)))"

declare floor_log2.simps [simp del]

text \<open>The exponent \<open>e\<close> with \<open>2^e \<le> |x| < 2^(e+1)\<close>, for \<open>x\<close> other than 0.\<close>

definition binary_exponent :: "real \<Rightarrow> int" where
  "binary_exponent x =
     (if 1 \<le> \<bar>x\<bar> then int (floor_log2 (nat \<lfloor>\<bar>x\<bar>\<rfloor>))
      else - int (floor_log2 (nat \<lceil>1 / \<bar>x\<bar>\<rceil> - 1)) - 1)"

text \<open>The powers of two, with an integer exponent.\<close>

definition pow2 :: "int \<Rightarrow> real" where
  "pow2 q = (if 0 \<le> q then 2 ^ nat q else 1 / 2 ^ nat (- q))"

text \<open>Rounding to the nearest integer, a tie to the even one.\<close>

definition round_half_even :: "real \<Rightarrow> int" where
  "round_half_even m =
     (let f = \<lfloor>m\<rfloor>; r = m - of_int f
      in if r < 1 / 2 then f
         else if 1 / 2 < r then f + 1
         else if even f then f else f + 1)"

text \<open>
  The binary64 number nearest to a real number, a tie to the one with an even
  significand: 53 significant binary digits, the least exponent of a digit \<open>-1074\<close>,
  and infinity from \<open>2^1024\<close> on.
\<close>

definition fl :: "real \<Rightarrow> pyfloat" where
  "fl x =
     (if x = 0 then Finite 0
      else
        (let q = max (binary_exponent x - 52) (- 1074);
             y = of_int (round_half_even (x / pow2 q)) * pow2 q
         in if 2 ^ 1024 \<le> \<bar>y\<bar> then (if 0 < x then PosInf else NegInf) else Finite y))"

text \<open>\<open>a + b\<close> on floats: the exact sum, rounded.\<close>

fun float_add :: "pyfloat \<Rightarrow> pyfloat \<Rightarrow> pyfloat" where
  "float_add (Finite x) (Finite y) = fl (x + y)"
| "float_add NaN b = NaN"
| "float_add a NaN = NaN"
| "float_add PosInf NegInf = NaN"
| "float_add NegInf PosInf = NaN"
| "float_add PosInf b = PosInf"
| "float_add a PosInf = PosInf"
| "float_add NegInf b = NegInf"
| "float_add a NegInf = NegInf"

subsection \<open>Totals by category\<close>

text \<open>
  \<open>str.capitalize\<close>: the first character in upper case, the others in lower case. On
  ASCII text this is the case mapping of the letters \<open>A\<close> to \<open>Z\<close>. On any other text
  it follows the Unicode case tables of the interpreter, which are no part of the
  application: there it is a parameter of the model.
\<close>

definition is_ascii :: "string \<Rightarrow> bool" where
  "is_ascii s = list_all (\<lambda>c. \<not> digit7 c) s"

definition capitalize :: "(string \<Rightarrow> string) \<Rightarrow> string \<Rightarrow> string" where
  "capitalize unicode_capitalize s =
     (if is_ascii s then
        (case s of [] \<Rightarrow> [] | c # cs \<Rightarrow> ascii_upper c # map ascii_lower cs)
      else unicode_capitalize s)"

text \<open>
  \<open>collections.defaultdict(float)\<close> with float values: \<open>d[k] += v\<close> reads a missing
  key as \<open>0.0\<close> and rounds the sum.
\<close>

type_synonym float_totals = "(string \<times> pyfloat) list"

fun add_float_to :: "string \<Rightarrow> pyfloat \<Rightarrow> float_totals \<Rightarrow> float_totals" where
  "add_float_to k v [] = [(k, float_add (Finite 0) v)]"
| "add_float_to k v ((k', t) # d) =
     (if k' = k then (k', float_add t v) # d else (k', t) # add_float_to k v d)"

text \<open>
  Adding floats from left to right, from 0, with a rounding at each addition: the value
  of a run of \<open>+=\<close>, and of the built-in \<open>sum\<close>. (From version 3.12 on the interpreter's
  \<open>sum\<close> also carries a correction term for these roundings; the sum of one or of two
  values is the same.)
\<close>

definition float_sum :: "pyfloat list \<Rightarrow> pyfloat" where
  "float_sum vs = foldl float_add (Finite 0) vs"

text \<open>
  The loop of \<open>generate_pie_chart_filtered\<close>, of \<open>update_summary_and_budget_display\<close> and
  of \<open>update_dashboard_summary\<close>:
  \<open>for exp in expenses: category_totals[exp[2].capitalize()] += exp[3]\<close>.
\<close>

definition category_totals :: "(string \<Rightarrow> string) \<Rightarrow> expense_row list \<Rightarrow> float_totals" where
  "category_totals unicode_capitalize fetched =
     foldl (\<lambda>d row. add_float_to (capitalize unicode_capitalize (e_category row))
                       (Finite (e_amount row)) d) [] fetched"

text \<open>\<open>total_sum = sum(category_totals.values())\<close>\<close>

definition total_sum :: "float_totals \<Rightarrow> pyfloat" where
  "total_sum d = float_sum (map snd d)"

text \<open>\<open>total_spent_this_month = sum(exp[3] for exp in expenses_this_month)\<close>\<close>

definition total_spent :: "expense_row list \<Rightarrow> pyfloat" where
  "total_spent fetched = float_sum (map (\<lambda>row. Finite (e_amount row)) fetched)"

section \<open>Engines for examples\<close>

text \<open>
  \<open>STRFTIME\<close> on texts of the form \<open>YYYY-MM-DD\<close>, the form in which the application
  stores a date: the year is the first four characters, year and month the first seven.
  The examples below run on this engine, which never fails.
\<close>

definition iso_strftime :: "string \<Rightarrow> string \<Rightarrow> string option" where
  "iso_strftime fmt d =
     (if fmt = ''%Y'' then Some (take 4 d)
      else if fmt = ''%Y-%m'' then Some (take 7 d)
      else None)"

definition never :: "nat \<Rightarrow> bool" where
  "never k = False"

definition sound_engine :: sqlite where
  "sound_engine = \<lparr>strftime = iso_strftime, raises = never\<rparr>"

text \<open>The scenario of the specification: two expenses, one income, one budget.\<close>

definition lunch :: expense_row where
  "lunch = \<lparr>e_id = 1, e_date = ''2025-01-10'', e_category = ''Food'', e_amount = 250,
            e_description = Some ''Lunch''\<rparr>"

definition dinner :: expense_row where
  "dinner = \<lparr>e_id = 2, e_date = ''2025-01-15'', e_category = ''Food'', e_amount = 150,
             e_description = None\<rparr>"

definition salary :: income_row where
  "salary = \<lparr>i_id = 1, i_date = ''2025-01-05'', i_source = ''Salary'', i_amount = 5000,
             i_description = None\<rparr>"

definition scenario :: database where
  "scenario = \<lparr>expenses = [lunch, dinner],
                budgets = [\<lparr>b_id = 1, b_month_year = ''2025-01'', b_budget_amount = 1000\<rparr>],
                income = [salary],
                categories = [\<lparr>c_id = 1, c_name = ''Food''\<rparr>, \<lparr>c_id = 2, c_name = ''Transport''\<rparr>],
                expenses_seq = 2\<rparr>"

definition fuel :: expense_row where
  "fuel = \<lparr>e_id = 3, e_date = ''2025-01-12'', e_category = ''Fuel'', e_amount = 40,
            e_description = Some ''Petrol''\<rparr>"

definition bonus :: income_row where
  "bonus = \<lparr>i_id = 2, i_date = ''2025-01-20'', i_source = ''Salary Bonus'', i_amount = 800,
            i_description = None\<rparr>"

definition stray :: expense_row where
  "stray = \<lparr>e_id = 3, e_date = ''2025-01-20'', e_category = ''Uncategorized'', e_amount = 75,
             e_description = None\<rparr>"

definition snack :: expense_row where
  "snack = \<lparr>e_id = 4, e_date = ''2025-01-21'', e_category = ''fOOD'', e_amount = 75,
             e_description = None\<rparr>"



text \<open>
  Three expenses of 0.4, 0.3 and 0.2: each amount is the binary64 number nearest to the
  decimal, as \<open>float(amount_str)\<close> stores it.
\<close>

definition tea :: expense_row where
  "tea = \<lparr>e_id = 1, e_date = ''2025-01-10'', e_category = ''Food'',
           e_amount = 3602879701896397 / 9007199254740992, e_description = None\<rparr>"

definition bus :: expense_row where
  "bus = \<lparr>e_id = 2, e_date = ''2025-01-11'', e_category = ''Transport'',
           e_amount = 5404319552844595 / 18014398509481984, e_description = None\<rparr>"

definition gum :: expense_row where
  "gum = \<lparr>e_id = 3, e_date = ''2025-01-12'', e_category = ''Food'',
           e_amount = 3602879701896397 / 18014398509481984, e_description = None\<rparr>"

text \<open>An interpreter whose category names are all ASCII: other text is left as it is.\<close>

definition ascii_names_only :: "string \<Rightarrow> string" where
  "ascii_names_only s = s"

section \<open>Properties\<close>

lemma map_unchanged: "(\<And>x. x \<in> set xs \<Longrightarrow> f x = x) \<Longrightarrow> map f xs = xs"
  by (induction xs) auto

text \<open>
  C9. \<open>update_expense\<close> with an id that no expense row has returns \<open>True\<close>, shows no
  message and leaves every table as it was, whenever the engine itself does not fail:
  an UPDATE that matches no row is reported like one that matches a row.
\<close>

theorem update_expense_unknown_id:
  assumes "expense_id \<notin> e_id ` set (expenses db)"
    and "\<not> raises sql 0" and "\<not> raises sql 1"
  shows "update_expense sql (connection_to db) expense_id date category amount description
           = (True, NoMessage, connection_to db)"
proof -
  have "map (\<lambda>r. if e_id r = expense_id
                  then r\<lparr>e_date := date, e_category := category, e_amount := amount,
                          e_description := description\<rparr>
                  else r) (expenses db) = expenses db"
    using assms(1) by (intro map_unchanged) auto
  then show ?thesis
    using assms(2,3)
    by (simp add: update_expense_def connection_to_def execute_dml_def commit_def
        update_expense_row_def)
qed

theorem update_expense_unknown_id_witness:
  "7 \<notin> e_id ` set (expenses scenario)
   \<and> update_expense sound_engine (connection_to scenario) 7 ''2025-02-01'' ''Rent'' 900 None
     = (True, NoMessage, connection_to scenario)"
  using update_expense_unknown_id [where expense_id = 7 and db = scenario and sql = sound_engine]
  by (simp add: scenario_def lunch_def dinner_def sound_engine_def never_def)

lemma find_unique_key:
  "distinct (map f xs) \<Longrightarrow> b \<in> set xs \<Longrightarrow> find (\<lambda>x. f x = f b) xs = Some b"
  by (induction xs) auto

text \<open>
  C6. When the budgets table has no row for the month, \<open>get_monthly_budget\<close> returns 0
  and shows no message; when it has one (month_year is UNIQUE), it returns the
  budget_amount of that row. The engine itself is taken not to fail.
\<close>

theorem get_monthly_budget_absent_is_zero:
  assumes "\<not> raises sql 0"
  shows "((\<forall>b \<in> set (budgets db). b_month_year b \<noteq> month_year) \<longrightarrow>
            get_monthly_budget sql (connection_to db) month_year = (0, NoMessage))
       \<and> (\<forall>b \<in> set (budgets db). distinct (map b_month_year (budgets db)) \<longrightarrow>
            get_monthly_budget sql (connection_to db) (b_month_year b)
              = (b_budget_amount b, NoMessage))"
proof (intro conjI impI ballI)
  assume "\<forall>b \<in> set (budgets db). b_month_year b \<noteq> month_year"
  then have "find (\<lambda>b. b_month_year b = month_year) (budgets db) = None"
    by (simp add: find_None_iff)
  then show "get_monthly_budget sql (connection_to db) month_year = (0, NoMessage)"
    using assms
    by (simp add: get_monthly_budget_def connection_to_def execute_query_def
        select_budget_amount_def)
next
  fix b
  assume "b \<in> set (budgets db)" and "distinct (map b_month_year (budgets db))"
  then have "find (\<lambda>x. b_month_year x = b_month_year b) (budgets db) = Some b"
    by (simp add: find_unique_key)
  then show "get_monthly_budget sql (connection_to db) (b_month_year b)
               = (b_budget_amount b, NoMessage)"
    using assms
    by (simp add: get_monthly_budget_def connection_to_def execute_query_def
        select_budget_amount_def)
qed

theorem get_monthly_budget_absent_is_zero_witness:
  "get_monthly_budget sound_engine (connection_to scenario) ''2025-02'' = (0, NoMessage)
   \<and> get_monthly_budget sound_engine (connection_to scenario) ''2025-01'' = (1000, NoMessage)"
  using get_monthly_budget_absent_is_zero
    [where sql = sound_engine and db = scenario and month_year = "''2025-02''"]
  by (simp add: scenario_def sound_engine_def never_def)

text \<open>
  C10. In \<open>fetch_expenses\<close> the year \<open>"All Years"\<close> is the same as no year: with any
  other filters, on any connection and engine, the same rows come back in the same order.
\<close>

theorem fetch_expenses_all_years_sentinel:
  "fetch_expenses sql self start_date end_date category (Some ''All Years'') month_year keyword
     = fetch_expenses sql self start_date end_date category None month_year keyword"
  by (cases self) (simp_all add: fetch_expenses_def fetch_expenses_where_def)


lemma order_by_desc_sorted:
  "sorted_wrt (\<lambda>a b. key b \<le> key a) (order_by_desc key rows)"
proof -
  have "sorted (map key (sort_key key (rev rows)))"
    by (rule sorted_sort_key)
  then have "sorted_wrt (\<lambda>a b. key a \<le> key b) (sort_key key (rev rows))"
    by (simp add: sorted_map)
  then show ?thesis
    by (simp add: order_by_desc_def sorted_wrt_rev)
qed

lemma order_by_desc_mset: "mset (order_by_desc key rows) = mset rows"
  by (simp add: order_by_desc_def)

text \<open>Rows with the same date keep their scan order.\<close>

lemma order_by_desc_stable:
  "filter (\<lambda>r. key r = k) (order_by_desc key rows) = filter (\<lambda>r. key r = k) rows"
proof -
  have "filter (\<lambda>r. key r = k) (sort_key key (rev rows)) = filter (\<lambda>r. key r = k) (rev rows)"
    by (rule sort_key_stable)
  then show ?thesis
    by (simp add: order_by_desc_def rev_filter [symmetric])
qed

lemma order_by_desc_set: "set (order_by_desc key rows) = set rows"
  by (simp add: order_by_desc_def)

text \<open>
  C3. After \<open>add_expense\<close>, \<open>fetch_expenses\<close> without filters returns a row with
  the date, category, amount and description that were given; the result holds every
  stored row once and is ordered by date, latest first. No engine call fails.
\<close>

theorem add_expense_then_fetch:
  assumes "\<not> raises sql 0" and "\<not> raises sql 1" and "\<not> raises sql' 0"
  shows "\<exists>r rows.
           e_date r = date \<and> e_category r = category \<and> e_amount r = amount
           \<and> e_description r = description
           \<and> add_expense sql (connection_to db) date category amount description
               = (True, NoMessage,
                  connection_to (db\<lparr>expenses := expenses db @ [r], expenses_seq := e_id r\<rparr>))
           \<and> fetch_expenses sql'
                 (connection_to (db\<lparr>expenses := expenses db @ [r], expenses_seq := e_id r\<rparr>))
                 None None None None None None = (rows, NoMessage)
           \<and> r \<in> set rows
           \<and> mset rows = mset (expenses db @ [r])
           \<and> sorted_wrt (\<lambda>a b. e_date b \<le> e_date a) rows"
proof -
  define r where "r = \<lparr>e_id = next_rowid (expenses_seq db) (map e_id (expenses db)),
    e_date = date, e_category = category, e_amount = amount, e_description = description\<rparr>"
  define rows where "rows = order_by_desc e_date (expenses db @ [r])"
  have add: "add_expense sql (connection_to db) date category amount description
      = (True, NoMessage,
         connection_to (db\<lparr>expenses := expenses db @ [r], expenses_seq := e_id r\<rparr>))"
    using assms(1,2)
    by (simp add: add_expense_def connection_to_def execute_dml_def commit_def
        insert_expense_def r_def Let_def)
  have fetch: "fetch_expenses sql'
      (connection_to (db\<lparr>expenses := expenses db @ [r], expenses_seq := e_id r\<rparr>))
      None None None None None None = (rows, NoMessage)"
    using assms(3)
    by (simp add: fetch_expenses_def connection_to_def execute_query_def select_expenses_def
        fetch_expenses_where_def rows_def)
  have "r \<in> set rows"
    by (simp add: rows_def order_by_desc_set)
  moreover have "mset rows = mset (expenses db @ [r])"
    by (simp only: rows_def order_by_desc_mset)
  moreover have "sorted_wrt (\<lambda>a b. e_date b \<le> e_date a) rows"
    unfolding rows_def by (rule order_by_desc_sorted)
  moreover have "e_date r = date \<and> e_category r = category \<and> e_amount r = amount
      \<and> e_description r = description"
    by (simp add: r_def)
  ultimately show ?thesis
    using add fetch by blast
qed


theorem add_expense_then_fetch_witness:
  "add_expense sound_engine (connection_to scenario) ''2025-01-12'' ''Fuel'' 40 (Some ''Petrol'')
     = (True, NoMessage,
        connection_to (scenario\<lparr>expenses := [lunch, dinner, fuel], expenses_seq := 3\<rparr>))
   \<and> fetch_expenses sound_engine
         (connection_to (scenario\<lparr>expenses := [lunch, dinner, fuel], expenses_seq := 3\<rparr>))
         None None None None None None = ([dinner, fuel, lunch], NoMessage)"
  using add_expense_then_fetch [where sql = sound_engine and sql' = sound_engine
      and db = scenario and date = "''2025-01-12''" and category = "''Fuel''" and amount = 40
      and description = "Some ''Petrol''"]
  by (simp add: sound_engine_def never_def add_expense_def connection_to_def execute_dml_def
      commit_def insert_expense_def next_rowid_def scenario_def lunch_def dinner_def fuel_def
      fetch_expenses_def execute_query_def select_expenses_def fetch_expenses_where_def
      order_by_desc_def)

lemma like_match_any: "like_match ''%'' x"
  by (induction x) simp_all

lemma like_match_plain_prefix:
  assumes "\<forall>c \<in> set s. c \<noteq> CHR ''%'' \<and> c \<noteq> CHR ''_''"
  shows "like_match (s @ ''%'') x \<longleftrightarrow> prefix (map ascii_lower s) (map ascii_lower x)"
  using assms
proof (induction s arbitrary: x)
  case Nil
  then show ?case
    using like_match_any [of x] by simp
next
  case (Cons p ps)
  then show ?case
    by (cases x) auto
qed

lemma like_match_leading_percent:
  "like_match (CHR ''%'' # p) x \<longleftrightarrow> (\<exists>u v. x = u @ v \<and> like_match p v)"
proof (induction x)
  case Nil
  then show ?case by simp
next
  case (Cons c cs)
  have "like_match (CHR ''%'' # p) (c # cs)
      \<longleftrightarrow> like_match p (c # cs) \<or> like_match (CHR ''%'' # p) cs"
    by simp
  also have "\<dots> \<longleftrightarrow> like_match p (c # cs) \<or> (\<exists>u v. cs = u @ v \<and> like_match p v)"
    by (simp only: Cons.IH)
  also have "\<dots> \<longleftrightarrow> (\<exists>u v. c # cs = u @ v \<and> like_match p v)"
    by (auto simp: Cons_eq_append_conv)
  finally show ?case .
qed

lemma like_match_contains:
  assumes "\<forall>c \<in> set s. c \<noteq> CHR ''%'' \<and> c \<noteq> CHR ''_''"
  shows "like_match (contains_pattern s) x
           \<longleftrightarrow> sublist (map ascii_lower s) (map ascii_lower x)"
proof -
  have "like_match (contains_pattern s) x
      \<longleftrightarrow> (\<exists>u v. x = u @ v \<and> prefix (map ascii_lower s) (map ascii_lower v))"
    using like_match_leading_percent [of "s @ ''%''" x] like_match_plain_prefix [OF assms]
    by (simp add: contains_pattern_def)
  also have "\<dots> \<longleftrightarrow> sublist (map ascii_lower s) (map ascii_lower x)"
  proof
    assume "\<exists>u v. x = u @ v \<and> prefix (map ascii_lower s) (map ascii_lower v)"
    then obtain u v w where "x = u @ v" and "map ascii_lower v = map ascii_lower s @ w"
      by (auto simp: prefix_def)
    then have "map ascii_lower x = map ascii_lower u @ map ascii_lower s @ w"
      by simp
    then show "sublist (map ascii_lower s) (map ascii_lower x)"
      unfolding sublist_def by blast
  next
    assume "sublist (map ascii_lower s) (map ascii_lower x)"
    then obtain ps ss where "map ascii_lower x = ps @ map ascii_lower s @ ss"
      unfolding sublist_def by blast
    then obtain u v where "x = u @ v" and "map ascii_lower v = map ascii_lower s @ ss"
      by (metis map_eq_append_conv)
    then show "\<exists>u v. x = u @ v \<and> prefix (map ascii_lower s) (map ascii_lower v)"
      by (auto simp: prefix_def)
  qed
  finally show ?thesis .
qed

lemma order_by_desc_filter:
  "filter P (order_by_desc key rows) = order_by_desc key (filter P rows)"
  by (simp add: order_by_desc_def rev_filter [symmetric] filter_sort)

lemma insort_key_map:
  "insort_key key (f x) (map f xs) = map f (insort_key (\<lambda>a. key (f a)) x xs)"
  by (induction xs) simp_all

lemma sort_key_map: "sort_key key (map f xs) = map f (sort_key (\<lambda>a. key (f a)) xs)"
  by (induction xs) (simp_all add: insort_key_map)

lemma order_by_desc_map:
  "order_by_desc key (map f rows) = map f (order_by_desc (\<lambda>a. key (f a)) rows)"
  by (simp add: order_by_desc_def rev_map sort_key_map)

lemma income_where_with_source:
  assumes "source \<noteq> []"
  shows "list_all (\<lambda>cond. cond r)
           (fetch_income_where fmt start_date end_date (Some source) year month_year keyword)
         \<longleftrightarrow> list_all (\<lambda>cond. cond r)
               (fetch_income_where fmt start_date end_date None year month_year keyword)
             \<and> like_match (contains_pattern source) (i_source r)"
  using assms by (auto simp: fetch_income_where_def)

lemma if_given_cases:
  obtains "p = None" | "p = Some []" | s where "p = Some s" and "s \<noteq> []"
  by (cases p) auto

lemma income_where_as_expense:
  assumes "year \<noteq> Some ''All Years''"
  shows "list_all (\<lambda>cond. cond (as_expense r))
           (fetch_expenses_where fmt start_date end_date None year month_year keyword)
         \<longleftrightarrow> list_all (\<lambda>cond. cond r)
               (fetch_income_where fmt start_date end_date None year month_year keyword)"
proof -
  have "list_all (\<lambda>cond. cond (as_expense r))
          (if_given year (\<lambda>p. if p \<noteq> ''All Years''
                               then [\<lambda>r. fmt ''%Y'' (e_date r) = Some p] else []))
        \<longleftrightarrow> list_all (\<lambda>cond. cond r) (if_given year (\<lambda>p. [\<lambda>r. fmt ''%Y'' (i_date r) = Some p]))"
    using assms by (cases year rule: if_given_cases) (simp_all add: as_expense_def)
  moreover have "list_all (\<lambda>cond. cond (as_expense r))
          (if_given start_date (\<lambda>p. [\<lambda>r. p \<le> e_date r]))
        \<longleftrightarrow> list_all (\<lambda>cond. cond r) (if_given start_date (\<lambda>p. [\<lambda>r. p \<le> i_date r]))"
    by (cases start_date rule: if_given_cases) (simp_all add: as_expense_def)
  moreover have "list_all (\<lambda>cond. cond (as_expense r))
          (if_given end_date (\<lambda>p. [\<lambda>r. e_date r \<le> p]))
        \<longleftrightarrow> list_all (\<lambda>cond. cond r) (if_given end_date (\<lambda>p. [\<lambda>r. i_date r \<le> p]))"
    by (cases end_date rule: if_given_cases) (simp_all add: as_expense_def)
  moreover have "list_all (\<lambda>cond. cond (as_expense r))
          (if_given month_year (\<lambda>p. [\<lambda>r. fmt ''%Y-%m'' (e_date r) = Some p]))
        \<longleftrightarrow> list_all (\<lambda>cond. cond r)
          (if_given month_year (\<lambda>p. [\<lambda>r. fmt ''%Y-%m'' (i_date r) = Some p]))"
    by (cases month_year rule: if_given_cases) (simp_all add: as_expense_def)
  moreover have "list_all (\<lambda>cond. cond (as_expense r))
          (if_given keyword (\<lambda>p. [\<lambda>r. like_nullable (contains_pattern p) (e_description r)
                                      \<or> like_match (contains_pattern p) (e_category r)]))
        \<longleftrightarrow> list_all (\<lambda>cond. cond r)
          (if_given keyword (\<lambda>p. [\<lambda>r. like_nullable (contains_pattern p) (i_description r)
                                      \<or> like_match (contains_pattern p) (i_source r)]))"
    by (cases keyword rule: if_given_cases) (simp_all add: as_expense_def)
  ultimately show ?thesis
    by (simp add: fetch_expenses_where_def fetch_income_where_def)
qed

text \<open>
  C8 as the code has it. \<open>fetch_income\<close> with a non-empty source filter returns, with
  any other filters, the rows of the same fetch without the source filter whose source
  matches the pattern \<open>%source%\<close> under \<open>LIKE\<close>, in the same order, which is descending
  by date; with no other filter these are the matching rows of the table. When the filter
  holds neither \<open>%\<close> nor \<open>_\<close>, a text matches exactly when it contains the filter, letter
  case aside. Without a source filter and with a year other than "All Years",
  \<open>fetch_income\<close> returns what \<open>fetch_expenses\<close> returns on the same rows read as
  expenses.
\<close>

theorem fetch_income_source_like:
  assumes "\<not> raises sql 0" and "source \<noteq> []"
  shows "fetch_income sql (connection_to db) start_date end_date (Some source) year month_year
             keyword
           = (filter (\<lambda>r. like_match (contains_pattern source) (i_source r))
                (fst (fetch_income sql (connection_to db) start_date end_date None year
                        month_year keyword)),
              NoMessage)
       \<and> sorted_wrt (\<lambda>a b. i_date b \<le> i_date a)
           (fst (fetch_income sql (connection_to db) start_date end_date (Some source) year
                   month_year keyword))
       \<and> mset (fst (fetch_income sql (connection_to db) None None (Some source) None None None))
           = mset (filter (\<lambda>r. like_match (contains_pattern source) (i_source r)) (income db))
       \<and> ((\<forall>c \<in> set source. c \<noteq> CHR ''%'' \<and> c \<noteq> CHR ''_'') \<longrightarrow>
            (\<forall>field. like_match (contains_pattern source) field
                      \<longleftrightarrow> sublist (map ascii_lower source) (map ascii_lower field)))
       \<and> (year \<noteq> Some ''All Years'' \<longrightarrow>
            map as_expense
              (fst (fetch_income sql (connection_to db) start_date end_date None year month_year
                      keyword))
            = fst (fetch_expenses sql
                     (connection_to (db\<lparr>expenses := map as_expense (income db)\<rparr>))
                     start_date end_date None year month_year keyword))"
proof (intro conjI impI allI)
  have with_source: "fst (fetch_income sql (connection_to db) start_date end_date (Some source)
        year month_year keyword)
      = order_by_desc i_date (filter (\<lambda>r. list_all (\<lambda>cond. cond r)
              (fetch_income_where (strftime sql) start_date end_date None year month_year
                 keyword)
          \<and> like_match (contains_pattern source) (i_source r)) (income db))"
    and message: "snd (fetch_income sql (connection_to db) start_date end_date (Some source)
        year month_year keyword) = NoMessage"
    for start_date end_date year month_year keyword
    using assms
    by (simp_all add: fetch_income_def connection_to_def execute_query_def select_income_def
        income_where_with_source)
  have without: "fst (fetch_income sql (connection_to db) start_date end_date None year
        month_year keyword)
      = order_by_desc i_date (filter (\<lambda>r. list_all (\<lambda>cond. cond r)
          (fetch_income_where (strftime sql) start_date end_date None year month_year keyword))
          (income db))"
    using assms(1)
    by (simp add: fetch_income_def connection_to_def execute_query_def select_income_def)
  have "fst (fetch_income sql (connection_to db) start_date end_date (Some source) year
        month_year keyword)
      = filter (\<lambda>r. like_match (contains_pattern source) (i_source r))
          (fst (fetch_income sql (connection_to db) start_date end_date None year month_year
                  keyword))"
    by (simp add: with_source without order_by_desc_filter)
  with message [of start_date end_date year month_year keyword]
  show "fetch_income sql (connection_to db) start_date end_date (Some source) year month_year
          keyword
        = (filter (\<lambda>r. like_match (contains_pattern source) (i_source r))
             (fst (fetch_income sql (connection_to db) start_date end_date None year
                     month_year keyword)),
           NoMessage)"
    by (simp add: prod_eq_iff)
  show "sorted_wrt (\<lambda>a b. i_date b \<le> i_date a)
      (fst (fetch_income sql (connection_to db) start_date end_date (Some source) year
              month_year keyword))"
    by (simp only: with_source order_by_desc_sorted)
  show "mset (fst (fetch_income sql (connection_to db) None None (Some source) None None None))
      = mset (filter (\<lambda>r. like_match (contains_pattern source) (i_source r)) (income db))"
    by (simp add: with_source order_by_desc_mset fetch_income_where_def)
  show "like_match (contains_pattern source) field
      \<longleftrightarrow> sublist (map ascii_lower source) (map ascii_lower field)"
    if "\<forall>c \<in> set source. c \<noteq> CHR ''%'' \<and> c \<noteq> CHR ''_''" for field
    using that by (rule like_match_contains)
  show "map as_expense
          (fst (fetch_income sql (connection_to db) start_date end_date None year month_year
                  keyword))
        = fst (fetch_expenses sql
                 (connection_to (db\<lparr>expenses := map as_expense (income db)\<rparr>))
                 start_date end_date None year month_year keyword)"
    if "year \<noteq> Some ''All Years''"
  proof -
    have "(\<lambda>r. e_date (as_expense r)) = i_date"
      by (simp add: fun_eq_iff as_expense_def)
    moreover have "fst (fetch_expenses sql
          (connection_to (db\<lparr>expenses := map as_expense (income db)\<rparr>))
          start_date end_date None year month_year keyword)
        = order_by_desc e_date (filter (\<lambda>r. list_all (\<lambda>cond. cond r)
            (fetch_expenses_where (strftime sql) start_date end_date None year month_year
               keyword)) (map as_expense (income db)))"
      using assms(1)
      by (simp add: fetch_expenses_def connection_to_def execute_query_def select_expenses_def)
    ultimately show ?thesis
      using income_where_as_expense [OF that]
      by (simp add: without filter_map order_by_desc_map comp_def)
  qed
qed

text \<open>
  C8 fails as stated: the filter "Salary" returns the incomes of the sources "Salary"
  and "Salary Bonus", and the second source is not the filter. Nor is \<open>fetch_income\<close>
  \<open>fetch_expenses\<close> with another column: the year "All Years", which \<open>fetch_expenses\<close>
  ignores, selects no income row.
\<close>

theorem fetch_income_source_not_equality:
  "fetch_income sound_engine (connection_to (scenario\<lparr>income := [salary, bonus]\<rparr>))
       None None (Some ''Salary'') None None None = ([bonus, salary], NoMessage)
   \<and> i_source bonus \<noteq> ''Salary''
   \<and> fetch_income sound_engine (connection_to (scenario\<lparr>income := [salary, bonus]\<rparr>))
       None None None (Some ''All Years'') None None = ([], NoMessage)
   \<and> fetch_expenses sound_engine (connection_to scenario)
       None None None (Some ''All Years'') None None = ([dinner, lunch], NoMessage)"
  by (simp add: fetch_income_def fetch_expenses_def connection_to_def execute_query_def
      select_income_def select_expenses_def fetch_income_where_def fetch_expenses_where_def
      order_by_desc_def sound_engine_def never_def iso_strftime_def scenario_def
      salary_def bonus_def lunch_def dinner_def contains_pattern_def ascii_lower_def)

theorem fetch_income_source_like_witness:
  "fetch_income sound_engine (connection_to (scenario\<lparr>income := [salary, bonus]\<rparr>))
       None None (Some ''bonus'') (Some ''2025'') None None = ([bonus], NoMessage)
   \<and> fetch_income sound_engine (connection_to (scenario\<lparr>income := [salary, bonus]\<rparr>))
       None None None (Some ''2025'') None None = ([bonus, salary], NoMessage)
   \<and> fetch_expenses sound_engine
         (connection_to (scenario\<lparr>income := [salary, bonus],
                                    expenses := [as_expense salary, as_expense bonus]\<rparr>))
       None None None (Some ''2025'') None None
       = ([as_expense bonus, as_expense salary], NoMessage)"
  using fetch_income_source_like [where sql = sound_engine and source = "''bonus''"
      and db = "scenario\<lparr>income := [salary, bonus]\<rparr>" and year = "Some ''2025''"
      and start_date = None and end_date = None and month_year = None and keyword = None]
  by (simp add: fetch_income_def fetch_expenses_def connection_to_def execute_query_def
      select_income_def select_expenses_def fetch_income_where_def fetch_expenses_where_def
      order_by_desc_def sound_engine_def never_def iso_strftime_def scenario_def
      salary_def bonus_def as_expense_def contains_pattern_def ascii_lower_def)

text \<open>
  C2. \<open>delete_category\<close> either returns \<open>True\<close>, and then every expense of the
  category reads "Uncategorized", no expense row is gone and the category row is removed,
  or it returns \<open>False\<close> with an error message and the tables are as before, whichever
  call to the engine failed. It returns \<open>True\<close> when no call fails.
\<close>

theorem delete_category_atomic:
  fixes db :: database and category_name :: string
  defines "db' \<equiv> db\<lparr>expenses :=
                      map (\<lambda>r. if e_category r = category_name
                                then r\<lparr>e_category := ''Uncategorized''\<rparr> else r) (expenses db),
                    categories := filter (\<lambda>r. c_name r \<noteq> category_name) (categories db)\<rparr>"
  shows "(delete_category sql (connection_to db) category_name = (True, NoMessage, connection_to db')
          \<or> delete_category sql (connection_to db) category_name
               = (False, ShowError ''Database Error'', connection_to db))
       \<and> ((\<forall>k < 4. \<not> raises sql k) \<longrightarrow>
            delete_category sql (connection_to db) category_name = (True, NoMessage, connection_to db'))
       \<and> length (expenses db') = length (expenses db)
       \<and> category_name \<notin> c_name ` set (categories db')"
proof -
  have "delete_category sql (connection_to db) category_name =
      (if raises sql 0 \<or> raises sql 1 \<or> raises sql 2 \<or> raises sql 3
       then (False, ShowError ''Database Error'', connection_to db)
       else (True, NoMessage, connection_to db'))"
    by (cases "raises sql 0"; cases "raises sql 1"; cases "raises sql 2"; cases "raises sql 3")
      (simp_all add: delete_category_def connection_to_def begin_transaction_def execute_dml_def
        commit_def rollback_def update_expenses_category_def delete_category_row_def db'_def
        Let_def)
  moreover have "(\<forall>k < 4. \<not> raises sql k) \<Longrightarrow>
      \<not> (raises sql 0 \<or> raises sql 1 \<or> raises sql 2 \<or> raises sql 3)"
    by simp
  ultimately show ?thesis
    by (auto simp: db'_def)
qed

theorem delete_category_atomic_witness:
  "delete_category sound_engine (connection_to scenario) ''Food''
     = (True, NoMessage,
        connection_to (scenario\<lparr>expenses := [lunch\<lparr>e_category := ''Uncategorized''\<rparr>,
                                                dinner\<lparr>e_category := ''Uncategorized''\<rparr>],
                                  categories := [\<lparr>c_id = 2, c_name = ''Transport''\<rparr>]\<rparr>))"
  using delete_category_atomic [where sql = sound_engine and db = scenario
      and category_name = "''Food''"]
  by (simp add: sound_engine_def never_def scenario_def lunch_def dinner_def)

text \<open>
  C1 fails when \<open>old_name\<close> is not a category: the UPDATE of the categories matches
  no row and cannot collide, so the call succeeds. With an existing new name the expenses
  that carry \<open>old_name\<close> are renamed; with a fresh new name the categories do not
  contain it afterwards.
\<close>

theorem update_category_unknown_old_name:
  "''Food'' \<in> c_name ` set (categories scenario)
   \<and> update_category sound_engine (connection_to (scenario\<lparr>expenses := [lunch, stray]\<rparr>))
         ''Uncategorized'' ''Food''
       = (True, NoMessage,
          connection_to (scenario\<lparr>expenses := [lunch, stray\<lparr>e_category := ''Food''\<rparr>]\<rparr>))
   \<and> update_category sound_engine (connection_to scenario) ''Uncategorized'' ''Misc''
       = (True, NoMessage, connection_to scenario)
   \<and> ''Misc'' \<notin> c_name ` set (categories scenario)"
  by (simp add: update_category_def connection_to_def begin_transaction_def execute_dml_def
      commit_def rollback_def update_category_name_def update_expenses_category_def
      sound_engine_def never_def scenario_def lunch_def dinner_def stray_def Let_def)

text \<open>
  C1, amended. Renaming an existing category to a different name is all or nothing. If
  the new name is free, the call either returns \<open>True\<close>, with the category row and
  every expense of the old name now under the new name, or returns \<open>False\<close> with the
  tables as before; it returns \<open>True\<close> when no engine call fails. If the new name is
  taken, the call returns \<open>False\<close> with the tables as before, and the message is the
  duplicate warning unless the engine failed first.
\<close>

theorem update_category_atomic:
  fixes db :: database and old_name new_name :: string
  defines "db' \<equiv> db\<lparr>categories :=
                      map (\<lambda>r. if c_name r = old_name then r\<lparr>c_name := new_name\<rparr> else r)
                        (categories db),
                    expenses :=
                      map (\<lambda>r. if e_category r = old_name then r\<lparr>e_category := new_name\<rparr> else r)
                        (expenses db)\<rparr>"
  assumes old: "old_name \<in> c_name ` set (categories db)" and diff: "new_name \<noteq> old_name"
  shows "(new_name \<notin> c_name ` set (categories db) \<longrightarrow>
            (update_category sql (connection_to db) old_name new_name
               = (True, NoMessage, connection_to db')
             \<or> update_category sql (connection_to db) old_name new_name
               = (False, ShowError ''Database Error'', connection_to db))
            \<and> ((\<forall>k < 4. \<not> raises sql k) \<longrightarrow>
                  update_category sql (connection_to db) old_name new_name
                    = (True, NoMessage, connection_to db'))
            \<and> new_name \<in> c_name ` set (categories db')
            \<and> old_name \<notin> c_name ` set (categories db'))
       \<and> (new_name \<in> c_name ` set (categories db) \<longrightarrow>
            (update_category sql (connection_to db) old_name new_name
               = (False, ShowWarning ''Duplicate Category'', connection_to db)
             \<or> update_category sql (connection_to db) old_name new_name
               = (False, ShowError ''Database Error'', connection_to db))
            \<and> ((\<forall>k < 4. \<not> raises sql k) \<longrightarrow>
                  update_category sql (connection_to db) old_name new_name
                    = (False, ShowWarning ''Duplicate Category'', connection_to db)))"
proof (intro conjI impI)
  assume fresh: "new_name \<notin> c_name ` set (categories db)"
  have run: "update_category sql (connection_to db) old_name new_name =
      (if raises sql 0 \<or> raises sql 1 \<or> raises sql 2 \<or> raises sql 3
       then (False, ShowError ''Database Error'', connection_to db)
       else (True, NoMessage, connection_to db'))"
    using fresh
    by (cases "raises sql 0"; cases "raises sql 1"; cases "raises sql 2"; cases "raises sql 3")
      (simp_all add: update_category_def connection_to_def begin_transaction_def execute_dml_def
        commit_def rollback_def update_category_name_def update_expenses_category_def db'_def
        Let_def)
  show "update_category sql (connection_to db) old_name new_name
          = (True, NoMessage, connection_to db')
        \<or> update_category sql (connection_to db) old_name new_name
          = (False, ShowError ''Database Error'', connection_to db)"
    by (simp add: run)
  show "update_category sql (connection_to db) old_name new_name
          = (True, NoMessage, connection_to db')"
    if "\<forall>k < 4. \<not> raises sql k"
  proof -
    from that have "\<not> (raises sql 0 \<or> raises sql 1 \<or> raises sql 2 \<or> raises sql 3)"
      by simp
    then show ?thesis
      by (simp add: run)
  qed
  show "new_name \<in> c_name ` set (categories db')"
  proof -
    from old obtain r where "r \<in> set (categories db)" and "c_name r = old_name"
      by auto
    then have "c_name (r\<lparr>c_name := new_name\<rparr>) = new_name
        \<and> r\<lparr>c_name := new_name\<rparr> \<in> set (categories db')"
      by (auto simp: db'_def image_iff intro!: bexI [of _ r])
    then show ?thesis
      by (metis image_eqI)
  qed
  show "old_name \<notin> c_name ` set (categories db')"
    using diff by (auto simp: db'_def)
next
  assume taken: "new_name \<in> c_name ` set (categories db)"
  have run: "update_category sql (connection_to db) old_name new_name =
      (if raises sql 0 \<or> raises sql 1
       then (False, ShowError ''Database Error'', connection_to db)
       else (False, ShowWarning ''Duplicate Category'', connection_to db))"
    using taken old diff
    by (cases "raises sql 0"; cases "raises sql 1")
      (simp_all add: update_category_def connection_to_def begin_transaction_def execute_dml_def
        commit_def rollback_def update_category_name_def Let_def)
  show "update_category sql (connection_to db) old_name new_name
          = (False, ShowWarning ''Duplicate Category'', connection_to db)
        \<or> update_category sql (connection_to db) old_name new_name
          = (False, ShowError ''Database Error'', connection_to db)"
    by (simp add: run)
  show "update_category sql (connection_to db) old_name new_name
          = (False, ShowWarning ''Duplicate Category'', connection_to db)"
    if "\<forall>k < 4. \<not> raises sql k"
  proof -
    from that have "\<not> (raises sql 0 \<or> raises sql 1)"
      by simp
    then show ?thesis
      by (simp add: run)
  qed
qed

theorem update_category_atomic_witness:
  "''Food'' \<in> c_name ` set (categories scenario)
   \<and> update_category sound_engine (connection_to scenario) ''Food'' ''Groceries''
     = (True, NoMessage,
        connection_to (scenario\<lparr>categories := [\<lparr>c_id = 1, c_name = ''Groceries''\<rparr>,
                                                  \<lparr>c_id = 2, c_name = ''Transport''\<rparr>],
                                  expenses := [lunch\<lparr>e_category := ''Groceries''\<rparr>,
                                                dinner\<lparr>e_category := ''Groceries''\<rparr>]\<rparr>))
   \<and> update_category sound_engine (connection_to scenario) ''Food'' ''Transport''
     = (False, ShowWarning ''Duplicate Category'', connection_to scenario)"
  using update_category_atomic [where sql = sound_engine and db = scenario
      and old_name = "''Food''" and new_name = "''Groceries''"]
    update_category_atomic [where sql = sound_engine and db = scenario
      and old_name = "''Food''" and new_name = "''Transport''"]
  by (simp add: sound_engine_def never_def scenario_def lunch_def dinner_def)




























lemma all_months_nth: "m < 12 \<Longrightarrow> all_months ! m = zero_fill 2 (py_str (m + 1))"
  by (simp add: all_months_def)











text \<open>The exponent is the one of the binade of its argument.\<close>

lemma floor_log2_bounds: "1 \<le> n \<Longrightarrow> 2 ^ floor_log2 n \<le> n \<and> n < 2 ^ Suc (floor_log2 n)"
proof (induction n rule: floor_log2.induct)
  case (1 n)
  show ?case
  proof (cases "n < 2")
    case True
    with "1.prems" show ?thesis
      by (subst (1 2) floor_log2.simps) simp
  next
    case False
    with "1.IH" have "2 ^ floor_log2 (n div 2) \<le> n div 2 \<and> n div 2 < 2 ^ Suc (floor_log2 (n div 2))"
      by simp
    moreover have "floor_log2 n = Suc (floor_log2 (n div 2))"
      using False by (subst floor_log2.simps) simp
    ultimately show ?thesis
      by (simp only: power_Suc) linarith
  qed
qed

lemma floor_log2_real:
  assumes "1 \<le> n"
  shows "(2::real) ^ floor_log2 n \<le> real n" and "real n + 1 \<le> 2 ^ Suc (floor_log2 n)"
proof -
  from floor_log2_bounds [OF assms]
  have a: "2 ^ floor_log2 n \<le> n" and b: "n + 1 \<le> 2 ^ Suc (floor_log2 n)"
    by simp_all
  from a have "real (2 ^ floor_log2 n) \<le> real n"
    by (rule iffD2 [OF of_nat_le_iff])
  then show "(2::real) ^ floor_log2 n \<le> real n"
    by simp
  from b have "real (n + 1) \<le> real (2 ^ Suc (floor_log2 n))"
    by (rule iffD2 [OF of_nat_le_iff])
  then show "real n + 1 \<le> 2 ^ Suc (floor_log2 n)"
    by simp
qed

lemma binary_exponent_bounds:
  assumes "x \<noteq> 0"
  shows "pow2 (binary_exponent x) \<le> \<bar>x\<bar> \<and> \<bar>x\<bar> < pow2 (binary_exponent x + 1)"
proof (cases "1 \<le> \<bar>x\<bar>")
  case True
  define n where "n = nat \<lfloor>\<bar>x\<bar>\<rfloor>"
  define k where "k = floor_log2 n"
  have n1: "1 \<le> n"
    using True by (simp add: n_def le_nat_floor)
  have n2: "real n \<le> \<bar>x\<bar>" and n3: "\<bar>x\<bar> < real n + 1"
    by (simp_all add: n_def)
  from floor_log2_real [OF n1] have "(2::real) ^ k \<le> real n" and "real n + 1 \<le> 2 ^ Suc k"
    by (simp_all add: k_def)
  with n2 n3 have "(2::real) ^ k \<le> \<bar>x\<bar>" and "\<bar>x\<bar> < 2 ^ Suc k"
    by linarith+
  moreover have "binary_exponent x = int k"
    using True by (simp add: binary_exponent_def n_def k_def)
  moreover have "nat (int k + 1) = Suc k"
    by simp
  ultimately show ?thesis
    by (simp add: pow2_def)
next
  case False
  define a where "a = \<bar>x\<bar>"
  have a: "0 < a" "a < 1"
    using assms False by (simp_all add: a_def)
  define c where "c = nat \<lceil>1 / a\<rceil>"
  define k where "k = floor_log2 (c - 1)"
  have big: "1 < 1 / a"
    using a by simp
  then have c1: "2 \<le> c"
    unfolding c_def by linarith
  have c2: "1 / a \<le> real c" and c3: "real c - 1 < 1 / a"
    using big unfolding c_def by linarith+
  from c1 have "1 \<le> c - 1"
    by simp
  from floor_log2_real [OF this] c1 have "(2::real) ^ k \<le> real c - 1" and "real c \<le> 2 ^ Suc k"
    by (simp_all add: k_def of_nat_diff)
  with c2 c3 have low: "1 / a \<le> 2 ^ Suc k" and high: "(2::real) ^ k < 1 / a"
    by linarith+
  have pos: "(0::real) < 2 ^ Suc k" "(0::real) < 2 ^ k"
    by simp_all
  from low a(1) pos(1) have "1 / 2 ^ Suc k \<le> a"
    by (simp add: field_simps)
  moreover from high a(1) pos(2) have "a < 1 / 2 ^ k"
    by (simp add: field_simps)
  moreover have e: "binary_exponent x = - int k - 1"
    using False by (simp add: binary_exponent_def a_def c_def k_def)
  moreover have "nat (- (- int k - 1)) = Suc k" and "nat (- (- int k - 1 + 1)) = k"
    by simp_all
  ultimately show ?thesis
    unfolding pow2_def e a_def [symmetric]
    by (cases k) simp_all
qed

text \<open>The dictionary of totals: its keys, and the value under each key.\<close>

lemma keys_add_float_to: "fst ` set (add_float_to k v d) = insert k (fst ` set d)"
proof (induction d)
  case Nil
  then show ?case by simp
next
  case (Cons p d)
  obtain k' t where p: "p = (k', t)"
    by (cases p)
  show ?case
  proof (cases "k' = k")
    case True
    with p show ?thesis by auto
  next
    case False
    with p Cons.IH show ?thesis by (simp add: insert_commute)
  qed
qed

lemma distinct_add_float_to:
  "distinct (map fst d) \<Longrightarrow> distinct (map fst (add_float_to k v d))"
  by (induction d) (auto simp: keys_add_float_to)

lemma map_of_add_float_to:
  "map_of (add_float_to k v d) k' =
     (if k' = k
      then Some (float_add (case map_of d k of None \<Rightarrow> Finite 0 | Some t \<Rightarrow> t) v)
      else map_of d k')"
  by (induction d) auto

lemma float_sum_snoc: "float_sum (vs @ [v]) = float_add (float_sum vs) v"
  by (simp add: float_sum_def)

lemma float_sum_empty: "float_sum [] = Finite 0"
  by (simp add: float_sum_def)

lemma grouped_totals:
  fixes key :: "'a \<Rightarrow> string" and val :: "'a \<Rightarrow> pyfloat"
  defines "totals \<equiv> \<lambda>rows. foldl (\<lambda>d r. add_float_to (key r) (val r) d) [] rows"
  shows "distinct (map fst (totals rows))"
    and "fst ` set (totals rows) = key ` set rows"
    and "map_of (totals rows) k =
           (if k \<in> key ` set rows
            then Some (float_sum (map val (filter (\<lambda>r. key r = k) rows)))
            else None)"
proof -
  show "distinct (map fst (totals rows))"
    by (induction rows rule: rev_induct) (simp_all add: totals_def distinct_add_float_to)
  show keys: "fst ` set (totals rows) = key ` set rows" for rows
    by (induction rows rule: rev_induct) (simp_all add: totals_def keys_add_float_to)
  show "map_of (totals rows) k =
           (if k \<in> key ` set rows
            then Some (float_sum (map val (filter (\<lambda>r. key r = k) rows)))
            else None)"
  proof (induction rows rule: rev_induct)
    case Nil
    then show ?case by (simp add: totals_def)
  next
    case (snoc r rows)
    have step: "totals (rows @ [r]) = add_float_to (key r) (val r) (totals rows)"
      by (simp add: totals_def)
    show ?case
    proof (cases "k = key r")
      case True
      show ?thesis
      proof (cases "key r \<in> key ` set rows")
        case True
        with snoc \<open>k = key r\<close> show ?thesis
          by (simp add: step map_of_add_float_to float_sum_snoc)
      next
        case False
        then have "filter (\<lambda>x. key x = key r) rows = []"
          unfolding filter_empty_conv by (metis imageI)
        with False snoc \<open>k = key r\<close> show ?thesis
          by (simp add: step map_of_add_float_to float_sum_def)
      qed
    next
      case False
      with snoc show ?thesis
        by (simp add: step map_of_add_float_to)
    qed
  qed
qed

lemma groups_partition:
  "distinct ks \<Longrightarrow> key ` set rows \<subseteq> set ks \<Longrightarrow>
   mset (concat (map (\<lambda>k. filter (\<lambda>r. key r = k) rows) ks)) = mset rows"
proof (induction ks arbitrary: rows)
  case Nil
  then show ?case by simp
next
  case (Cons k ks)
  define rest where "rest = filter (\<lambda>r. key r \<noteq> k) rows"
  have "key ` set rest \<subseteq> set ks"
    using Cons.prems(2) by (auto simp: rest_def)
  with Cons.IH [of rest] Cons.prems(1)
  have "mset (concat (map (\<lambda>k'. filter (\<lambda>r. key r = k') rest) ks)) = mset rest"
    by simp
  moreover have "filter (\<lambda>r. key r = k') rest = filter (\<lambda>r. key r = k') rows"
    if "k' \<in> set ks" for k'
  proof -
    from that Cons.prems(1) have "k' \<noteq> k" by auto
    then show ?thesis
      by (auto simp: rest_def intro: filter_cong)
  qed
  ultimately have "mset (concat (map (\<lambda>k'. filter (\<lambda>r. key r = k') rows) ks)) = mset rest"
    by (simp cong: map_cong)
  moreover have "mset (filter (\<lambda>r. key r = k) rows) + mset rest = mset rows"
    by (simp add: rest_def)
  ultimately show ?case
    by simp
qed

lemma sum_list_concat_map:
  "sum_list (map f (concat xss)) = sum_list (map (\<lambda>xs. sum_list (map f xs)) xss)"
  by (induction xss) simp_all

lemma sum_list_mset_cong:
  fixes f :: "'a \<Rightarrow> real"
  assumes "mset xs = mset ys"
  shows "sum_list (map f xs) = sum_list (map f ys)"
proof -
  have "sum_list (map f xs) = sum_mset (image_mset f (mset xs))"
    by (metis mset_map sum_mset_sum_list)
  also have "\<dots> = sum_mset (image_mset f (mset ys))"
    by (simp only: assms)
  also have "\<dots> = sum_list (map f ys)"
    by (metis mset_map sum_mset_sum_list)
  finally show ?thesis .
qed

lemma groups_exact_sums:
  fixes f :: "'a \<Rightarrow> real"
  assumes "distinct ks" and "key ` set rows \<subseteq> set ks"
  shows "sum_list (map (\<lambda>k. sum_list (map f (filter (\<lambda>r. key r = k) rows))) ks)
           = sum_list (map f rows)"
proof -
  have "sum_list (map (\<lambda>k. sum_list (map f (filter (\<lambda>r. key r = k) rows))) ks)
      = sum_list (map f (concat (map (\<lambda>k. filter (\<lambda>r. key r = k) rows) ks)))"
    by (simp add: sum_list_concat_map comp_def)
  also have "\<dots> = sum_list (map f rows)"
    using groups_partition [OF assms] by (rule sum_list_mset_cong)
  finally show ?thesis .
qed

lemma ascii_upper_lower: "ascii_upper (ascii_lower c) = ascii_upper c"
  by (simp add: ascii_lower_def ascii_upper_def)

lemma capitalize_ignores_case:
  assumes "is_ascii a" and "is_ascii b" and "map ascii_lower a = map ascii_lower b"
  shows "capitalize unicode_capitalize a = capitalize unicode_capitalize b"
proof (cases a)
  case Nil
  with assms show ?thesis by simp
next
  case (Cons x xs)
  with assms(3) obtain y ys where b: "b = y # ys" and hd: "ascii_lower x = ascii_lower y"
    and tl: "map ascii_lower xs = map ascii_lower ys"
    by (cases b) auto
  from hd have "ascii_upper x = ascii_upper y"
    by (metis ascii_upper_lower)
  with Cons b tl assms(1,2) show ?thesis
    by (simp add: capitalize_def)
qed

text \<open>
  C4 as the code has it. The totals by category have one entry for each capitalized
  category name of the rows, and the total of an entry is the float sum, in the order of
  the rows, of the amounts of the rows with that capitalized name. These groups are a
  partition of the rows: taken together they hold every row once. So the sums of the
  groups taken in exact arithmetic add up to the exact sum of all amounts. Two ASCII
  category names that differ only in letter case have the same capitalized form, and
  their rows are one group.
\<close>

theorem category_totals_partition:
  "distinct (map fst (category_totals cap rows))
   \<and> fst ` set (category_totals cap rows) = (\<lambda>r. capitalize cap (e_category r)) ` set rows
   \<and> (\<forall>(k, t) \<in> set (category_totals cap rows).
         t = float_sum (map (\<lambda>r. Finite (e_amount r))
               (filter (\<lambda>r. capitalize cap (e_category r) = k) rows)))
   \<and> mset (concat (map (\<lambda>(k, t). filter (\<lambda>r. capitalize cap (e_category r) = k) rows)
                     (category_totals cap rows))) = mset rows
   \<and> sum_list (map (\<lambda>(k, t). sum_list (map e_amount
                      (filter (\<lambda>r. capitalize cap (e_category r) = k) rows)))
         (category_totals cap rows)) = sum_list (map e_amount rows)
   \<and> (\<forall>a b. is_ascii a \<and> is_ascii b \<and> map ascii_lower a = map ascii_lower b \<longrightarrow>
         capitalize cap a = capitalize cap b)"
proof (intro conjI)
  let ?key = "\<lambda>r. capitalize cap (e_category r)"
  let ?val = "\<lambda>r. Finite (e_amount r)"
  show dist: "distinct (map fst (category_totals cap rows))"
    unfolding category_totals_def by (rule grouped_totals(1))
  show keys: "fst ` set (category_totals cap rows) = ?key ` set rows"
    unfolding category_totals_def by (rule grouped_totals(2))
  show "\<forall>(k, t) \<in> set (category_totals cap rows).
         t = float_sum (map ?val (filter (\<lambda>r. ?key r = k) rows))"
  proof (clarify)
    fix k t
    assume member: "(k, t) \<in> set (category_totals cap rows)"
    with dist have "map_of (category_totals cap rows) k = Some t"
      by simp
    moreover from member keys have "k \<in> ?key ` set rows"
      by (metis fst_conv imageI)
    ultimately show "t = float_sum (map ?val (filter (\<lambda>r. ?key r = k) rows))"
      using grouped_totals(3) [of ?key ?val rows k]
      by (simp add: category_totals_def)
  qed
  have ks: "distinct (map fst (category_totals cap rows))"
    "?key ` set rows \<subseteq> set (map fst (category_totals cap rows))"
    using dist keys by simp_all
  have "mset (concat (map (\<lambda>k. filter (\<lambda>r. ?key r = k) rows)
      (map fst (category_totals cap rows)))) = mset rows"
    using ks by (rule groups_partition)
  then show "mset (concat (map (\<lambda>(k, t). filter (\<lambda>r. ?key r = k) rows)
      (category_totals cap rows))) = mset rows"
    by (simp add: case_prod_unfold comp_def)
  have "sum_list (map (\<lambda>k. sum_list (map e_amount (filter (\<lambda>r. ?key r = k) rows)))
      (map fst (category_totals cap rows))) = sum_list (map e_amount rows)"
    using ks by (rule groups_exact_sums)
  then show "sum_list (map (\<lambda>(k, t). sum_list (map e_amount (filter (\<lambda>r. ?key r = k) rows)))
      (category_totals cap rows)) = sum_list (map e_amount rows)"
    by (simp add: case_prod_unfold comp_def)
  show "\<forall>a b. is_ascii a \<and> is_ascii b \<and> map ascii_lower a = map ascii_lower b \<longrightarrow>
      capitalize cap a = capitalize cap b"
    by (blast intro: capitalize_ignores_case)
qed

lemmas fl_eval = fl_def binary_exponent_def floor_log2.simps pow2_def round_half_even_def Let_def

text \<open>
  C4 fails as stated: the totals are binary floats, and each addition rounds. For the
  expenses 0.4 (Food), 0.3 (Transport), 0.2 (Food) the totals are 0.6000000000000001
  and 0.3; their sum is 0.9000000000000001, the stored amounts add up to 0.9 exactly, and
  \<open>sum\<close> over the rows from left to right gives 0.8999999999999999.
\<close>

theorem category_totals_rounding:
  "category_totals ascii_names_only [tea, bus, gum]
     = [(''Food'', Finite (1351079888211149 / 2251799813685248)),
        (''Transport'', Finite (5404319552844595 / 18014398509481984))]
   \<and> total_sum (category_totals ascii_names_only [tea, bus, gum])
     = Finite (4053239664633447 / 4503599627370496)
   \<and> sum_list (map e_amount [tea, bus, gum]) = 8106479329266893 / 9007199254740992
   \<and> total_spent [tea, bus, gum] = Finite (2026619832316723 / 2251799813685248)
   \<and> total_sum (category_totals ascii_names_only [tea, bus, gum])
     \<noteq> Finite (sum_list (map e_amount [tea, bus, gum]))
   \<and> total_sum (category_totals ascii_names_only [tea, bus, gum]) \<noteq> total_spent [tea, bus, gum]"
proof -
  have totals: "category_totals ascii_names_only [tea, bus, gum]
      = [(''Food'', Finite (1351079888211149 / 2251799813685248)),
         (''Transport'', Finite (5404319552844595 / 18014398509481984))]"
    by (simp add: category_totals_def tea_def bus_def gum_def capitalize_def is_ascii_def
        ascii_upper_def ascii_lower_def fl_eval)
  have groups: "total_sum (category_totals ascii_names_only [tea, bus, gum])
      = Finite (4053239664633447 / 4503599627370496)"
    by (simp add: totals total_sum_def float_sum_def fl_eval)
  have exact: "sum_list (map e_amount [tea, bus, gum]) = 8106479329266893 / 9007199254740992"
    by (simp add: tea_def bus_def gum_def)
  have rows: "total_spent [tea, bus, gum] = Finite (2026619832316723 / 2251799813685248)"
    by (simp add: total_spent_def float_sum_def tea_def bus_def gum_def fl_eval)
  have "total_sum (category_totals ascii_names_only [tea, bus, gum])
      \<noteq> Finite (sum_list (map e_amount [tea, bus, gum]))"
    by (simp only: groups exact) simp
  moreover have "total_sum (category_totals ascii_names_only [tea, bus, gum])
      \<noteq> total_spent [tea, bus, gum]"
    by (simp only: groups rows) simp
  ultimately show ?thesis
    using totals groups exact rows by (intro conjI)
qed

theorem category_totals_partition_witness:
  "category_totals ascii_names_only [lunch, fuel, dinner, snack]
     = [(''Food'', Finite 475), (''Fuel'', Finite 40)]
   \<and> filter (\<lambda>r. capitalize ascii_names_only (e_category r) = ''Food'')
        [lunch, fuel, dinner, snack] = [lunch, dinner, snack]
   \<and> float_sum (map (\<lambda>r. Finite (e_amount r)) [lunch, dinner, snack]) = Finite 475
   \<and> is_ascii ''Food'' \<and> is_ascii ''fOOD''
   \<and> map ascii_lower ''Food'' = map ascii_lower ''fOOD''
   \<and> capitalize ascii_names_only ''fOOD'' = ''Food''
   \<and> capitalize ascii_names_only ''Food'' = capitalize ascii_names_only ''fOOD''"
proof -
  let ?rows = "[lunch, fuel, dinner, snack]"
  note partition = category_totals_partition [of ascii_names_only ?rows]
  have totals: "category_totals ascii_names_only ?rows
       = [(''Food'', Finite 475), (''Fuel'', Finite 40)]"
    by (simp add: category_totals_def lunch_def fuel_def dinner_def snack_def capitalize_def
        is_ascii_def ascii_upper_def ascii_lower_def fl_eval)
  have food: "filter (\<lambda>r. capitalize ascii_names_only (e_category r) = ''Food'') ?rows
       = [lunch, dinner, snack]"
    by (simp add: lunch_def fuel_def dinner_def snack_def capitalize_def
        is_ascii_def ascii_upper_def ascii_lower_def)
  have "(''Food'', Finite 475) \<in> set (category_totals ascii_names_only ?rows)"
    by (simp add: totals)
  with partition have "Finite 475 = float_sum (map (\<lambda>r. Finite (e_amount r))
      (filter (\<lambda>r. capitalize ascii_names_only (e_category r) = ''Food'') ?rows))"
    by blast
  then have total: "float_sum (map (\<lambda>r. Finite (e_amount r)) [lunch, dinner, snack]) = Finite 475"
    by (simp only: food)
  have ascii: "is_ascii ''Food''" "is_ascii ''fOOD''"
    "map ascii_lower ''Food'' = map ascii_lower ''fOOD''"
    by (simp_all add: is_ascii_def ascii_lower_def)
  with partition
  have merged: "capitalize ascii_names_only ''Food'' = capitalize ascii_names_only ''fOOD''"
    by blast
  have "capitalize ascii_names_only ''fOOD'' = ''Food''"
    by (simp add: capitalize_def is_ascii_def ascii_upper_def ascii_lower_def)
  with totals food total ascii merged show ?thesis
    by (intro conjI)
qed

end
